theory Spec2Isabelle
  imports Complex_Main
begin

section \<open>Tesla car controller: steering angle limiter and command scheduling\<close>

text \<open>
  A shallow embedding of \<^verbatim>\<open>opendbc/car/tesla/carcontroller.py\<close>.

  Python floats are modelled as the real numbers: every quantity is a finite real, so
  rounding, NaN and the infinities are outside this model. Python's unbounded integers
  (the frame index, the message counters) are \<^typ>\<open>int\<close>; Python's \<^verbatim>\<open>%\<close> and
  \<^verbatim>\<open>//\<close> by a positive constant agree with \<open>mod\<close> and \<open>div\<close> on \<^typ>\<open>int\<close>.
\<close>

subsection \<open>Library functions the controller calls\<close>

text \<open>
  \<^verbatim>\<open>np.clip(a, a_min, a_max)\<close> is \<^verbatim>\<open>minimum(a_max, maximum(a, a_min))\<close>; no order
  of the two bounds is checked, and with \<open>a_min > a_max\<close> the result is \<open>a_max\<close>.
\<close>

definition np_clip :: "real \<Rightarrow> real \<Rightarrow> real \<Rightarrow> real" where
  "np_clip a a_min a_max = min a_max (max a a_min)"

text \<open>\<^verbatim>\<open>np.sign\<close>: \<open>-1\<close>, \<open>0\<close> or \<open>1\<close>.\<close>

definition np_sign :: "real \<Rightarrow> real" where
  "np_sign x = (if x < 0 then - 1 else if x = 0 then 0 else 1)"

text \<open>\<^verbatim>\<open>math.degrees\<close>: radians to degrees.\<close>

definition degrees :: "real \<Rightarrow> real" where
  "degrees x = x * (180 / pi)"

text \<open>
  Modelled from the spec: \<^verbatim>\<open>rate_limit\<close> is imported from \<^verbatim>\<open>opendbc.car\<close>, which is
  not among the source files. The spec (4.1, step 2): the candidate is rate-limited
  relative to the previous value, the change kept within \<open>[dw_step, up_step]\<close>
  (called with the symmetric \<open>[-delta, +delta]\<close>). The clamp is the one the rest of the
  file uses.
\<close>

definition rate_limit :: "real \<Rightarrow> real \<Rightarrow> real \<Rightarrow> real \<Rightarrow> real" where
  "rate_limit new_value last_value dw_step up_step =
     np_clip new_value (last_value + dw_step) (last_value + up_step)"

subsection \<open>Constants and collaborators\<close>

text \<open>
  The constants imported from other modules (\<^verbatim>\<open>opendbc.car\<close>, \<^verbatim>\<open>interfaces\<close>,
  \<^verbatim>\<open>tesla.values\<close>) are not among the source files; they are parameters of the model.
  Of \<^verbatim>\<open>AngleSteeringLimits\<close> the controller reads \<^verbatim>\<open>STEER_ANGLE_MAX\<close> only.
\<close>

record AngleSteeringLimits =
  STEER_ANGLE_MAX :: real

record params =
  ISO_LATERAL_ACCEL :: real
  ACCELERATION_DUE_TO_GRAVITY :: real
  DT_CTRL :: real
  STEER_STEP :: real
  ANGLE_LIMITS :: AngleSteeringLimits
  ACCEL_MIN :: real
  ACCEL_MAX :: real

text \<open>
  The vehicle model is external: \<^verbatim>\<open>VM.get_steer_from_curvature(curvature, speed, roll)\<close>
  is a pure function to a steering angle in radians.
\<close>

type_synonym VehicleModel = "real \<Rightarrow> real \<Rightarrow> real \<Rightarrow> real"

definition MAX_ANGLE_RATE :: real where
  "MAX_ANGLE_RATE = 10"

definition AVERAGE_ROAD_ROLL :: real where
  "AVERAGE_ROAD_ROLL = 6 / 100"

definition MAX_LATERAL_ACCEL :: "params \<Rightarrow> real" where
  "MAX_LATERAL_ACCEL P = ISO_LATERAL_ACCEL P + (ACCELERATION_DUE_TO_GRAVITY P * AVERAGE_ROAD_ROLL)"

definition MAX_LATERAL_JERK :: "params \<Rightarrow> real" where
  "MAX_LATERAL_JERK P = 3 + (ACCELERATION_DUE_TO_GRAVITY P * AVERAGE_ROAD_ROLL)"

subsection \<open>The steering angle limiter\<close>

definition get_max_angle_delta :: "params \<Rightarrow> real \<Rightarrow> VehicleModel \<Rightarrow> real" where
  "get_max_angle_delta P v_ego_raw vm =
     (let max_curvature_rate_sec = MAX_LATERAL_JERK P / ((max v_ego_raw 1)\<^sup>2);
          max_angle_rate_sec = degrees (vm max_curvature_rate_sec v_ego_raw 0)
      in max_angle_rate_sec * (DT_CTRL P * STEER_STEP P))"

definition get_max_angle :: "params \<Rightarrow> real \<Rightarrow> VehicleModel \<Rightarrow> real" where
  "get_max_angle P v_ego_raw vm =
     (let max_curvature = MAX_LATERAL_ACCEL P / ((max v_ego_raw 1)\<^sup>2)
      in degrees (vm max_curvature v_ego_raw 0))"

definition apply_tesla_steer_angle_limits ::
  "params \<Rightarrow> real \<Rightarrow> real \<Rightarrow> real \<Rightarrow> real \<Rightarrow> bool \<Rightarrow> AngleSteeringLimits \<Rightarrow> VehicleModel \<Rightarrow> real" where
  "apply_tesla_steer_angle_limits P apply_angle apply_angle_last v_ego_raw steering_angle
       lat_active limits vm =
     (let max_angle_delta = get_max_angle_delta P v_ego_raw vm;
          max_angle_delta = min max_angle_delta MAX_ANGLE_RATE;
          new_apply_angle = rate_limit apply_angle apply_angle_last (- max_angle_delta) max_angle_delta;
          max_angle = get_max_angle P v_ego_raw vm;
          new_apply_angle = np_clip new_apply_angle (- max_angle) max_angle;
          new_apply_angle = (if \<not> lat_active then steering_angle else new_apply_angle)
      in np_clip new_apply_angle (- STEER_ANGLE_MAX limits) (STEER_ANGLE_MAX limits))"

subsection \<open>Inputs, outputs and state of the controller\<close>

text \<open>
  \<^verbatim>\<open>CC.actuators\<close>: the controller reads \<^verbatim>\<open>steeringAngleDeg\<close> and \<^verbatim>\<open>accel\<close>; whatever
  else the message carries is the extension part of the record.
\<close>

record Actuators =
  steeringAngleDeg :: real
  accel :: real

record CruiseControl =
  cancel :: bool

record 'a CarControl =
  latActive :: bool
  longActive :: bool
  cruiseControl :: CruiseControl
  actuators :: "'a Actuators_scheme"

text \<open>\<^verbatim>\<open>CS.out\<close>, the car state message; the measured angle is \<^verbatim>\<open>CS.out.steeringAngleDeg\<close>.\<close>

record CarStateOut =
  steeringTorque :: real
  vEgoRaw :: real
  vEgo :: real
  steeringAngleDeg :: real

text \<open>
  \<^verbatim>\<open>CS.das_control\<close> is the parsed \<^verbatim>\<open>DAS_control\<close> message; the controller reads its
  signal \<^verbatim>\<open>DAS_controlCounter\<close>, which the message always carries.
\<close>

record DAS_control =
  DAS_controlCounter :: int

record CarState =
  out :: CarStateOut
  hands_on_level :: int
  das_control :: DAS_control

text \<open>
  The message encoders of \<^verbatim>\<open>TeslaCAN\<close> are external. An outbound command is recorded as
  the encoder call that made it, with its arguments:
  \<^verbatim>\<open>create_steering_control(angle, enabled)\<close>, \<^verbatim>\<open>create_steering_allowed()\<close> and
  \<^verbatim>\<open>create_longitudinal_command(acc_state, accel, cntr, v_ego, active)\<close>.
\<close>

datatype can_msg =
  create_steering_control real bool
| create_steering_allowed
| create_longitudinal_command int real int real bool

text \<open>
  The mutable members of \<^verbatim>\<open>CarController\<close>. \<open>driver_torque\<close> is the internal value of
  the \<^verbatim>\<open>FirstOrderFilter\<close>.
\<close>

record controller_state =
  apply_angle_last :: real
  angle_modifier :: real
  driver_torque :: real
  frame :: int

text \<open>
  The members set once in \<^verbatim>\<open>__init__\<close>: the vehicle model, the car parameters' flag
  \<^verbatim>\<open>CP.openpilotLongitudinalControl\<close>, and the filter. \<^verbatim>\<open>FirstOrderFilter\<close> is not
  among the source files: \<open>filter_update x u\<close> stands for \<^verbatim>\<open>self.driver_torque.update(u)\<close>
  at internal value \<open>x\<close>, and gives the new internal value and the value returned.
\<close>

record CarController =
  VM :: VehicleModel
  filter_update :: "real \<Rightarrow> real \<Rightarrow> real \<times> real"
  openpilotLongitudinalControl :: bool

definition init :: controller_state where
  "init = \<lparr> apply_angle_last = 0, angle_modifier = 0, driver_torque = 0, frame = 0 \<rparr>"

subsection \<open>One control cycle\<close>

text \<open>
  \<^verbatim>\<open>CarController.update(CC, CS, now_nanos)\<close>: returns the actuator echo, the list of
  outbound commands and the state after the call.
\<close>

definition update ::
  "params \<Rightarrow> CarController \<Rightarrow> controller_state \<Rightarrow> 'a CarControl \<Rightarrow> CarState \<Rightarrow> int \<Rightarrow>
     'a Actuators_scheme \<times> can_msg list \<times> controller_state" where
  "update P self s CC CS now_nanos =
     (let actuators = CarControl.actuators CC;
          can_sends = [];
          lat_active = (latActive CC \<and> hands_on_level CS < 3);
          driver_torque = 0;
          driver_torque =
            (if \<bar>steeringTorque (out CS)\<bar> \<ge> 1 / 2
             then steeringTorque (out CS) - 1 / 2 * np_sign (steeringTorque (out CS))
             else driver_torque);
          driver_torque = np_clip driver_torque (- 3) 3;
          (filter_x, driver_torque) = filter_update self (controller_state.driver_torque s) driver_torque;
          s = s\<lparr> controller_state.driver_torque := filter_x \<rparr>;
          (s, can_sends) =
            (if frame s mod 2 = 0 then
               let s =
                     (if latActive CC then
                        let curvature_from_torque = driver_torque / ((max (vEgoRaw (out CS)) 20)\<^sup>2);
                            angle_from_torque =
                              degrees (VM self curvature_from_torque (max (vEgoRaw (out CS)) 20) 0)
                        in s\<lparr> angle_modifier :=
                               np_clip angle_from_torque (angle_modifier s - 5) (angle_modifier s + 5) \<rparr>
                      else s\<lparr> angle_modifier := 0 \<rparr>);
                   apply_angle = Actuators.steeringAngleDeg actuators + angle_modifier s;
                   s = s\<lparr> apply_angle_last :=
                         apply_tesla_steer_angle_limits P apply_angle (apply_angle_last s)
                           (vEgoRaw (out CS)) (CarStateOut.steeringAngleDeg (out CS)) lat_active
                           (ANGLE_LIMITS P) (VM self) \<rparr>
               in (s, can_sends @ [create_steering_control (apply_angle_last s) lat_active])
             else (s, can_sends));
          can_sends =
            (if frame s mod 10 = 0 then can_sends @ [create_steering_allowed] else can_sends);
          can_sends =
            (if openpilotLongitudinalControl self then
               (if frame s mod 4 = 0 then
                  let state = (if cancel (cruiseControl CC) then 13 else 4);
                      accel = np_clip (Actuators.accel actuators) (ACCEL_MIN P) (ACCEL_MAX P);
                      cntr = (frame s div 4) mod 8
                  in can_sends @ [create_longitudinal_command state accel cntr (vEgo (out CS)) (longActive CC)]
                else can_sends)
             else
               (if cancel (cruiseControl CC) then
                  let cntr = (DAS_controlCounter (das_control CS) + 1) mod 8
                  in can_sends @ [create_longitudinal_command 13 0 cntr (vEgo (out CS)) False]
                else can_sends));
          new_actuators = actuators\<lparr> Actuators.steeringAngleDeg := apply_angle_last s \<rparr>;
          s = s\<lparr> frame := frame s + 1 \<rparr>
      in (new_actuators, can_sends, s))"

subsection \<open>The parts of a cycle, named\<close>

text \<open>
  The expressions \<^verbatim>\<open>update\<close> computes on the way, under names of their own:
  the driver torque after the deadband and the clamp (before the filter), the angle the
  filtered torque maps to, the angle modifier after a steering frame, and the limiter's
  result on a steering frame.
\<close>

definition torque_input :: "CarState \<Rightarrow> real" where
  "torque_input CS =
     np_clip (if \<bar>steeringTorque (out CS)\<bar> \<ge> 1 / 2
              then steeringTorque (out CS) - 1 / 2 * np_sign (steeringTorque (out CS))
              else 0) (- 3) 3"

definition angle_from_torque :: "CarController \<Rightarrow> controller_state \<Rightarrow> CarState \<Rightarrow> real" where
  "angle_from_torque self s CS =
     degrees (VM self
       (snd (filter_update self (driver_torque s) (torque_input CS)) / ((max (vEgoRaw (out CS)) 20)\<^sup>2))
       (max (vEgoRaw (out CS)) 20) 0)"

definition next_angle_modifier ::
  "CarController \<Rightarrow> controller_state \<Rightarrow> 'a CarControl \<Rightarrow> CarState \<Rightarrow> real" where
  "next_angle_modifier self s CC CS =
     (if latActive CC
      then np_clip (angle_from_torque self s CS) (angle_modifier s - 5) (angle_modifier s + 5)
      else 0)"

definition next_apply_angle ::
  "params \<Rightarrow> CarController \<Rightarrow> controller_state \<Rightarrow> 'a CarControl \<Rightarrow> CarState \<Rightarrow> real" where
  "next_apply_angle P self s CC CS =
     apply_tesla_steer_angle_limits P
       (Actuators.steeringAngleDeg (actuators CC) + next_angle_modifier self s CC CS)
       (apply_angle_last s) (vEgoRaw (out CS)) (CarStateOut.steeringAngleDeg (out CS))
       (latActive CC \<and> hands_on_level CS < 3) (ANGLE_LIMITS P) (VM self)"

subsection \<open>Runs of the controller\<close>

text \<open>
  The caller invokes \<^verbatim>\<open>update\<close> once per tick, on the state the previous call left.
  \<open>run\<close> is the state after a sequence of ticks, each tick the arguments of one call.
\<close>

fun run ::
  "params \<Rightarrow> CarController \<Rightarrow> controller_state \<Rightarrow> ('a CarControl \<times> CarState \<times> int) list \<Rightarrow>
     controller_state" where
  "run P self s [] = s"
| "run P self s ((CC, CS, now_nanos) # ticks) =
     run P self (snd (snd (update P self s CC CS now_nanos))) ticks"

subsection \<open>Kinds of outbound commands\<close>

fun is_steering_control :: "can_msg \<Rightarrow> bool" where
  "is_steering_control (create_steering_control angle enabled) = True"
| "is_steering_control m = False"

fun is_steering_allowed :: "can_msg \<Rightarrow> bool" where
  "is_steering_allowed create_steering_allowed = True"
| "is_steering_allowed m = False"

fun is_longitudinal_command :: "can_msg \<Rightarrow> bool" where
  "is_longitudinal_command (create_longitudinal_command acc_state acc cntr v_ego active) = True"
| "is_longitudinal_command m = False"

subsection \<open>A concrete configuration\<close>

text \<open>
  Concrete values for the parameters, used where a statement is evaluated at an explicit
  input: the constants as upstream opendbc sets them (lateral acceleration 3 m/s/s,
  g = 9.81, a 10 ms control period, the steering command every 2 frames, 360 degrees of
  absolute steering angle, acceleration within [-3.48, 2.0]).
\<close>

definition example_params :: params where
  "example_params =
     \<lparr> ISO_LATERAL_ACCEL = 3, ACCELERATION_DUE_TO_GRAVITY = 981 / 100, DT_CTRL = 1 / 100,
       STEER_STEP = 2, ANGLE_LIMITS = \<lparr> STEER_ANGLE_MAX = 360 \<rparr>,
       ACCEL_MIN = - (348 / 100), ACCEL_MAX = 2 \<rparr>"

text \<open>
  A vehicle model without slip or roll compensation: the steering-wheel angle is
  proportional to the curvature, 2000 degrees per 1/m (a steering ratio of 12 at a
  wheelbase of 2.9 m), returned in radians.
\<close>

definition example_VM :: VehicleModel where
  "example_VM curv u roll = curv * 2000 * (pi / 180)"

text \<open>
  Modelled from the spec: \<^verbatim>\<open>FirstOrderFilter\<close> is not among the source files. The spec
  (4.2): a first-order low-pass filter with a short time constant; the controller builds
  it with initial value 0, time constant \<open>rc = 0.003\<close> and period \<open>dt = DT_CTRL\<close>. The
  update moves the internal value towards the input by the fraction \<open>dt / (rc + dt)\<close> and
  returns it.
\<close>

definition first_order_filter :: "real \<Rightarrow> real \<Rightarrow> real \<Rightarrow> real \<Rightarrow> real \<times> real" where
  "first_order_filter rc dt x u =
     (let alpha = dt / (rc + dt);
          x = (1 - alpha) * x + alpha * u
      in (x, x))"

definition example_controller :: "bool \<Rightarrow> CarController" where
  "example_controller openpilot_longitudinal =
     \<lparr> VM = example_VM,
       filter_update = first_order_filter (3 / 1000) (1 / 100),
       openpilotLongitudinalControl = openpilot_longitudinal \<rparr>"

text \<open>
  A tick's inputs, from the fields the controller reads: requested lateral control,
  cancel request, desired steering angle and acceleration; driver torque, speed, measured
  steering angle, hands-on level and the observed counter.
\<close>

definition example_CC :: "bool \<Rightarrow> bool \<Rightarrow> real \<Rightarrow> real \<Rightarrow> unit CarControl" where
  "example_CC lat_requested cancel_requested angle acceleration =
     \<lparr> latActive = lat_requested, longActive = True,
       cruiseControl = \<lparr> cancel = cancel_requested \<rparr>,
       actuators = \<lparr> Actuators.steeringAngleDeg = angle, accel = acceleration \<rparr> \<rparr>"

definition example_CS :: "real \<Rightarrow> real \<Rightarrow> real \<Rightarrow> int \<Rightarrow> int \<Rightarrow> CarState" where
  "example_CS torque speed measured_angle hands_on counter =
     \<lparr> out = \<lparr> steeringTorque = torque, vEgoRaw = speed, vEgo = speed,
               CarStateOut.steeringAngleDeg = measured_angle \<rparr>,
       hands_on_level = hands_on,
       das_control = \<lparr> DAS_controlCounter = counter \<rparr> \<rparr>"

section \<open>Properties\<close>

subsection \<open>Clamping\<close>

lemma np_clip_le: "np_clip a lo hi \<le> hi"
  by (simp add: np_clip_def)

lemma np_clip_ge: "lo \<le> hi \<Longrightarrow> lo \<le> np_clip a lo hi"
  by (simp add: np_clip_def)

lemma np_clip_id: "lo \<le> a \<Longrightarrow> a \<le> hi \<Longrightarrow> np_clip a lo hi = a"
  by (simp add: np_clip_def)

lemma np_clip_abs: "0 \<le> m \<Longrightarrow> \<bar>np_clip a (- m) m\<bar> \<le> m"
  by (simp add: np_clip_def abs_le_iff min_def max_def)

lemma np_clip_near:
  "lo \<le> x \<Longrightarrow> x \<le> hi \<Longrightarrow> \<bar>np_clip a lo hi - x\<bar> \<le> \<bar>a - x\<bar>"
  by (simp add: np_clip_def min_def max_def)

lemma rate_limit_within:
  "0 \<le> d \<Longrightarrow> \<bar>rate_limit new_value last_value (- d) d - last_value\<bar> \<le> d"
  unfolding rate_limit_def np_clip_def
  by (auto simp: min_def max_def abs_le_iff)

lemma degrees_example_VM: "degrees (example_VM curv u roll) = curv * 2000"
  by (simp add: degrees_def example_VM_def)

subsection \<open>What one cycle computes\<close>

lemma update_state:
  "snd (snd (update P self s CC CS n)) =
     \<lparr> apply_angle_last =
         (if frame s mod 2 = 0 then next_apply_angle P self s CC CS else apply_angle_last s),
       angle_modifier =
         (if frame s mod 2 = 0 then next_angle_modifier self s CC CS else angle_modifier s),
       driver_torque = fst (filter_update self (driver_torque s) (torque_input CS)),
       frame = frame s + 1 \<rparr>"
proof -
  define la where "la = (latActive CC \<and> hands_on_level CS < 3)"
  define c2 where "c2 = (frame s mod 2 = 0)"
  show ?thesis
    unfolding update_def Let_def split_def torque_input_def[symmetric]
      next_apply_angle_def next_angle_modifier_def angle_from_torque_def la_def[symmetric]
    apply (simp split del: if_split cong del: if_weak_cong
        add: if_distrib [of fst] if_distrib [of snd] if_distrib [of frame] c2_def[symmetric])
    apply (cases c2; cases "latActive CC"; simp)
    done
qed

lemma update_actuators:
  "fst (update P self s CC CS n) =
     (actuators CC)\<lparr> Actuators.steeringAngleDeg :=
        (if frame s mod 2 = 0 then next_apply_angle P self s CC CS else apply_angle_last s) \<rparr>"
proof -
  define la where "la = (latActive CC \<and> hands_on_level CS < 3)"
  define c2 where "c2 = (frame s mod 2 = 0)"
  show ?thesis
    unfolding update_def Let_def split_def torque_input_def[symmetric]
      next_apply_angle_def next_angle_modifier_def angle_from_torque_def la_def[symmetric]
    apply (simp split del: if_split cong del: if_weak_cong
        add: if_distrib [of fst] if_distrib [of snd] if_distrib [of frame] c2_def[symmetric])
    apply (cases c2; cases "latActive CC"; simp)
    done
qed

lemma update_can_sends:
  "fst (snd (update P self s CC CS n)) =
     (if frame s mod 2 = 0
      then [create_steering_control (next_apply_angle P self s CC CS)
              (latActive CC \<and> hands_on_level CS < 3)]
      else []) @
     (if frame s mod 10 = 0 then [create_steering_allowed] else []) @
     (if openpilotLongitudinalControl self then
        (if frame s mod 4 = 0 then
           [create_longitudinal_command (if cancel (cruiseControl CC) then 13 else 4)
              (np_clip (Actuators.accel (actuators CC)) (ACCEL_MIN P) (ACCEL_MAX P))
              ((frame s div 4) mod 8) (vEgo (out CS)) (longActive CC)]
         else [])
      else
        (if cancel (cruiseControl CC) then
           [create_longitudinal_command 13 0 ((DAS_controlCounter (das_control CS) + 1) mod 8)
              (vEgo (out CS)) False]
         else []))"
proof -
  define la where "la = (latActive CC \<and> hands_on_level CS < 3)"
  define c2 where "c2 = (frame s mod 2 = 0)"
  define c10 where "c10 = (frame s mod 10 = 0)"
  define c4 where "c4 = (frame s mod 4 = 0)"
  define cn where "cn = frame s div 4 mod 8"
  define dn where "dn = (DAS_controlCounter (das_control CS) + 1) mod 8"
  have "fst (snd (update P self s CC CS n)) =
     (if c2 then [create_steering_control (next_apply_angle P self s CC CS) la] else []) @
     (if c10 then [create_steering_allowed] else []) @
     (if openpilotLongitudinalControl self then
        (if c4 then
           [create_longitudinal_command (if cancel (cruiseControl CC) then 13 else 4)
              (np_clip (Actuators.accel (actuators CC)) (ACCEL_MIN P) (ACCEL_MAX P))
              cn (vEgo (out CS)) (longActive CC)]
         else [])
      else
        (if cancel (cruiseControl CC) then
           [create_longitudinal_command 13 0 dn (vEgo (out CS)) False]
         else []))"
    unfolding update_def Let_def split_def torque_input_def[symmetric]
      next_apply_angle_def next_angle_modifier_def angle_from_torque_def la_def[symmetric]
    apply (simp split del: if_split cong del: if_weak_cong
        add: if_distrib [of fst] if_distrib [of snd] if_distrib [of frame]
          c2_def[symmetric] c10_def[symmetric] c4_def[symmetric] cn_def[symmetric]
          dn_def[symmetric])
    apply (cases c2; cases c10; cases c4; cases "latActive CC";
        cases "openpilotLongitudinalControl self"; cases "cancel (cruiseControl CC)"; simp)
    done
  then show ?thesis
    unfolding la_def c2_def c10_def c4_def cn_def dn_def .
qed

lemma update_frame: "frame (snd (snd (update P self s CC CS n))) = frame s + 1"
  by (simp add: update_state)

lemma update_apply_angle_last_steer:
  "frame s mod 2 = 0 \<Longrightarrow>
   apply_angle_last (snd (snd (update P self s CC CS n))) = next_apply_angle P self s CC CS"
  by (simp add: update_state)

lemma update_apply_angle_last_skip:
  "frame s mod 2 \<noteq> 0 \<Longrightarrow>
   apply_angle_last (snd (snd (update P self s CC CS n))) = apply_angle_last s"
  by (simp add: update_state)

lemma update_angle_modifier_steer:
  "frame s mod 2 = 0 \<Longrightarrow>
   angle_modifier (snd (snd (update P self s CC CS n))) = next_angle_modifier self s CC CS"
  by (simp add: update_state)

lemma update_angle_modifier_skip:
  "frame s mod 2 \<noteq> 0 \<Longrightarrow>
   angle_modifier (snd (snd (update P self s CC CS n))) = angle_modifier s"
  by (simp add: update_state)

subsection \<open>The absolute angle limit\<close>

lemma limiter_abs:
  "0 \<le> STEER_ANGLE_MAX limits \<Longrightarrow>
   \<bar>apply_tesla_steer_angle_limits P a l v sa la limits vm\<bar> \<le> STEER_ANGLE_MAX limits"
  unfolding apply_tesla_steer_angle_limits_def Let_def
  by (rule np_clip_abs)

lemma update_apply_angle_last_abs:
  assumes "0 \<le> STEER_ANGLE_MAX (ANGLE_LIMITS P)"
    and "\<bar>apply_angle_last s\<bar> \<le> STEER_ANGLE_MAX (ANGLE_LIMITS P)"
  shows "\<bar>apply_angle_last (snd (snd (update P self s CC CS n)))\<bar> \<le> STEER_ANGLE_MAX (ANGLE_LIMITS P)"
proof (cases "frame s mod 2 = 0")
  case True
  then have "apply_angle_last (snd (snd (update P self s CC CS n))) = next_apply_angle P self s CC CS"
    by (rule update_apply_angle_last_steer)
  then show ?thesis
    using limiter_abs [OF assms(1)] by (simp add: next_apply_angle_def)
next
  case False
  then have "apply_angle_last (snd (snd (update P self s CC CS n))) = apply_angle_last s"
    by (rule update_apply_angle_last_skip)
  then show ?thesis using assms(2) by simp
qed

lemma run_apply_angle_last_abs:
  assumes "0 \<le> STEER_ANGLE_MAX (ANGLE_LIMITS P)"
  shows "\<bar>apply_angle_last s\<bar> \<le> STEER_ANGLE_MAX (ANGLE_LIMITS P) \<Longrightarrow>
    \<bar>apply_angle_last (run P self s ticks)\<bar> \<le> STEER_ANGLE_MAX (ANGLE_LIMITS P)"
proof (induction ticks arbitrary: s)
  case Nil
  then show ?case by simp
next
  case (Cons t ticks)
  obtain CC CS n where t: "t = (CC, CS, n)" by (cases t)
  show ?case
    unfolding t run.simps
    by (rule Cons.IH) (rule update_apply_angle_last_abs [OF assms Cons.prems])
qed

text \<open>
  C1. Whatever the candidate angle, the previous angle, the raw speed, the measured
  steering angle and the lateral-active flag, the limiter's result has magnitude at most
  \<open>STEER_ANGLE_MAX\<close>; and \<open>apply_angle_last\<close> lies in
  \<open>[-STEER_ANGLE_MAX, STEER_ANGLE_MAX]\<close> after every sequence of \<open>update\<close> calls from
  the initial state, where it is 0. The configured maximum is a magnitude, so it is not
  negative.
\<close>

theorem steer_angle_within_max:
  assumes "0 \<le> STEER_ANGLE_MAX limits"
  shows "\<bar>apply_tesla_steer_angle_limits P candidate previous speed measured
            active limits vm\<bar> \<le> STEER_ANGLE_MAX limits
       \<and> \<bar>apply_angle_last (run (P\<lparr> ANGLE_LIMITS := limits \<rparr>) self init ticks)\<bar>
            \<le> STEER_ANGLE_MAX limits"
proof
  show "\<bar>apply_tesla_steer_angle_limits P candidate previous speed measured
            active limits vm\<bar> \<le> STEER_ANGLE_MAX limits"
    by (rule limiter_abs [OF assms])
  have "\<bar>apply_angle_last (run (P\<lparr> ANGLE_LIMITS := limits \<rparr>) self init ticks)\<bar>
      \<le> STEER_ANGLE_MAX (ANGLE_LIMITS (P\<lparr> ANGLE_LIMITS := limits \<rparr>))"
    by (rule run_apply_angle_last_abs) (use assms in \<open>simp_all add: init_def\<close>)
  then show "\<bar>apply_angle_last (run (P\<lparr> ANGLE_LIMITS := limits \<rparr>) self init ticks)\<bar>
      \<le> STEER_ANGLE_MAX limits"
    by simp
qed

theorem steer_angle_within_max_witness:
  "0 \<le> STEER_ANGLE_MAX (ANGLE_LIMITS example_params)
   \<and> \<bar>apply_tesla_steer_angle_limits example_params 500 0 20 0 True
        (ANGLE_LIMITS example_params) example_VM\<bar> \<le> 360
   \<and> apply_tesla_steer_angle_limits example_params 500 0 0 720 False
        (ANGLE_LIMITS example_params) example_VM = 360
   \<and> \<bar>apply_angle_last (run example_params (example_controller True) init
          [(example_CC False False 0 0, example_CS 0 0 720 0 0, 0),
           (example_CC False False 0 0, example_CS 0 0 (- 720) 0 0, 0)])\<bar> \<le> 360"
proof -
  have h: "0 \<le> STEER_ANGLE_MAX (ANGLE_LIMITS example_params)"
    by (simp add: example_params_def)
  have e: "example_params\<lparr> ANGLE_LIMITS := ANGLE_LIMITS example_params \<rparr> = example_params"
    by simp
  have v: "apply_tesla_steer_angle_limits example_params 500 0 0 720 False
      (ANGLE_LIMITS example_params) example_VM = 360"
    by (simp add: apply_tesla_steer_angle_limits_def Let_def np_clip_def example_params_def)
  show ?thesis
    using h v
      steer_angle_within_max [OF h, of example_params 500 0 20 0 True example_VM
        "example_controller True"
        "[(example_CC False False 0 0, example_CS 0 0 720 0 0, 0),
          (example_CC False False 0 0, example_CS 0 0 (- 720) 0 0, 0)]"]
    unfolding e
    by (simp add: example_params_def)
qed

subsection \<open>The limiter, inactive and active\<close>

lemma limiter_inactive:
  "apply_tesla_steer_angle_limits P a l v sa False limits vm =
     np_clip sa (- STEER_ANGLE_MAX limits) (STEER_ANGLE_MAX limits)"
  by (simp add: apply_tesla_steer_angle_limits_def Let_def)

lemma limiter_active:
  "apply_tesla_steer_angle_limits P a l v sa True limits vm =
     np_clip
       (np_clip
          (rate_limit a l (- min (get_max_angle_delta P v vm) MAX_ANGLE_RATE)
             (min (get_max_angle_delta P v vm) MAX_ANGLE_RATE))
          (- get_max_angle P v vm) (get_max_angle P v vm))
       (- STEER_ANGLE_MAX limits) (STEER_ANGLE_MAX limits)"
  by (simp add: apply_tesla_steer_angle_limits_def Let_def)

lemma limiter_active_step:
  assumes d: "0 \<le> get_max_angle_delta P v vm"
    and ma: "\<bar>l\<bar> \<le> get_max_angle P v vm"
    and m: "\<bar>l\<bar> \<le> STEER_ANGLE_MAX limits"
  shows "\<bar>apply_tesla_steer_angle_limits P a l v sa True limits vm - l\<bar>
           \<le> min (get_max_angle_delta P v vm) MAX_ANGLE_RATE"
proof -
  let ?d = "min (get_max_angle_delta P v vm) MAX_ANGLE_RATE"
  let ?r = "rate_limit a l (- ?d) ?d"
  let ?c = "np_clip ?r (- get_max_angle P v vm) (get_max_angle P v vm)"
  have d0: "0 \<le> ?d" using d by (simp add: MAX_ANGLE_RATE_def)
  have "\<bar>np_clip ?c (- STEER_ANGLE_MAX limits) (STEER_ANGLE_MAX limits) - l\<bar> \<le> \<bar>?c - l\<bar>"
    by (rule np_clip_near) (use m in linarith)+
  also have "\<bar>?c - l\<bar> \<le> \<bar>?r - l\<bar>"
    by (rule np_clip_near) (use ma in linarith)+
  also have "\<bar>?r - l\<bar> \<le> ?d"
    by (rule rate_limit_within [OF d0])
  finally show ?thesis
    by (simp only: limiter_active)
qed

lemma limiter_active_jump:
  assumes d: "0 \<le> d" and dc: "d \<le> c" and ma: "d \<le> get_max_angle P v vm"
    and m: "d \<le> STEER_ANGLE_MAX limits"
    and dd: "d = min (get_max_angle_delta P v vm) MAX_ANGLE_RATE"
  shows "apply_tesla_steer_angle_limits P c 0 v sa True limits vm = d"
proof -
  have r: "rate_limit c 0 (- d) d = d"
    using d dc by (simp add: rate_limit_def np_clip_def)
  have c: "np_clip d (- get_max_angle P v vm) (get_max_angle P v vm) = d"
    by (rule np_clip_id) (use d ma in linarith)+
  have e: "np_clip d (- STEER_ANGLE_MAX limits) (STEER_ANGLE_MAX limits) = d"
    by (rule np_clip_id) (use d m in linarith)+
  show ?thesis
    unfolding limiter_active dd [symmetric] r c e ..
qed

text \<open>
  C3, as the code has it. With the lateral-active flag false the limiter returns the
  measured steering angle passed through the final clamp to
  \<open>[-STEER_ANGLE_MAX, STEER_ANGLE_MAX]\<close>, whatever the candidate angle, the previous
  angle and the speed; it is the measured angle itself when that lies within the clamp.
\<close>

theorem inactive_limiter_is_clamped_measured_angle:
  "apply_tesla_steer_angle_limits P candidate previous speed measured False limits vm =
     np_clip measured (- STEER_ANGLE_MAX limits) (STEER_ANGLE_MAX limits)
   \<and> (\<bar>measured\<bar> \<le> STEER_ANGLE_MAX limits \<longrightarrow>
        apply_tesla_steer_angle_limits P candidate previous speed measured False limits vm = measured)"
  by (simp add: limiter_inactive np_clip_def)

theorem inactive_limiter_is_clamped_measured_angle_witness:
  "\<bar>100\<bar> \<le> STEER_ANGLE_MAX (ANGLE_LIMITS example_params)
   \<and> apply_tesla_steer_angle_limits example_params 50 0 20 100 False
        (ANGLE_LIMITS example_params) example_VM = 100"
  using inactive_limiter_is_clamped_measured_angle
    [of example_params 50 0 20 100 "ANGLE_LIMITS example_params" example_VM]
  by (simp add: example_params_def)

text \<open>
  C3 as stated fails: a measured angle of 400 degrees is returned as 360.
\<close>

theorem inactive_limiter_not_measured_angle:
  "apply_tesla_steer_angle_limits example_params 0 0 20 400 False
     (ANGLE_LIMITS example_params) example_VM = 360
   \<and> apply_tesla_steer_angle_limits example_params 0 0 20 400 False
     (ANGLE_LIMITS example_params) example_VM \<noteq> 400"
  by (simp add: limiter_inactive np_clip_def example_params_def)

lemma example_max_angle_delta:
  "get_max_angle_delta example_params 20 example_VM = 35886 / 100000"
  by (simp add: get_max_angle_delta_def Let_def MAX_LATERAL_JERK_def AVERAGE_ROAD_ROLL_def
      example_params_def degrees_example_VM)

lemma example_max_angle:
  "get_max_angle example_params 20 example_VM = 17943 / 1000"
  by (simp add: get_max_angle_def Let_def MAX_LATERAL_ACCEL_def AVERAGE_ROAD_ROLL_def
      example_params_def degrees_example_VM)


lemma example_params_sel:
  "STEER_ANGLE_MAX (ANGLE_LIMITS example_params) = 360"
  "ACCEL_MIN example_params = - (348 / 100)"
  "ACCEL_MAX example_params = 2"
  by (simp_all add: example_params_def)

lemma example_controller_sel:
  "VM (example_controller b) = example_VM"
  "filter_update (example_controller b) = first_order_filter (3 / 1000) (1 / 100)"
  "openpilotLongitudinalControl (example_controller b) = b"
  by (simp_all add: example_controller_def)

lemma example_CC_sel:
  "latActive (example_CC l c a acc) = l"
  "longActive (example_CC l c a acc) = True"
  "cancel (cruiseControl (example_CC l c a acc)) = c"
  "Actuators.steeringAngleDeg (actuators (example_CC l c a acc)) = a"
  "accel (actuators (example_CC l c a acc)) = acc"
  by (simp_all add: example_CC_def)

lemma example_CS_sel:
  "steeringTorque (out (example_CS t v m h c)) = t"
  "vEgoRaw (out (example_CS t v m h c)) = v"
  "vEgo (out (example_CS t v m h c)) = v"
  "CarStateOut.steeringAngleDeg (out (example_CS t v m h c)) = m"
  "hands_on_level (example_CS t v m h c) = h"
  "DAS_controlCounter (das_control (example_CS t v m h c)) = c"
  by (simp_all add: example_CS_def)

lemmas example_sel = example_params_sel example_controller_sel example_CC_sel example_CS_sel

lemma torque_input_zero: "torque_input (example_CS 0 v m h c) = 0"
  by (simp add: torque_input_def example_CS_sel np_clip_def)

lemma angle_from_torque_zero:
  "driver_torque s = 0 \<Longrightarrow>
   angle_from_torque (example_controller b) s (example_CS 0 v m h c) = 0"
  by (simp add: angle_from_torque_def torque_input_zero example_controller_sel
      first_order_filter_def degrees_example_VM)

lemma next_angle_modifier_zero:
  "driver_torque s = 0 \<Longrightarrow> angle_modifier s = 0 \<Longrightarrow>
   next_angle_modifier (example_controller b) s (example_CC l c a acc) (example_CS 0 v m h k) = 0"
  by (simp add: next_angle_modifier_def angle_from_torque_zero np_clip_def)

lemma update_example_quiet:
  assumes "driver_torque s = 0" "angle_modifier s = 0"
  shows "snd (snd (update P (example_controller b) s (example_CC l c a acc) (example_CS 0 v m h k) n)) =
     \<lparr> apply_angle_last =
         (if frame s mod 2 = 0
          then apply_tesla_steer_angle_limits P a (apply_angle_last s) v m (l \<and> h < 3)
                 (ANGLE_LIMITS P) example_VM
          else apply_angle_last s),
       angle_modifier = 0, driver_torque = 0, frame = frame s + 1 \<rparr>"
  using assms
  by (simp add: update_state next_apply_angle_def next_angle_modifier_zero torque_input_zero
      example_sel first_order_filter_def)


lemma example_limiter_inactive:
  "\<bar>m\<bar> \<le> 360 \<Longrightarrow>
   apply_tesla_steer_angle_limits example_params a l v m False (ANGLE_LIMITS example_params) vm = m"
  by (simp add: limiter_inactive example_params_sel np_clip_def)

text \<open>
  C2, as the code has it. With lateral control active, a jerk-derived delta that is not
  negative, and a previous angle within both the lateral-acceleration angle limit of the
  current speed and \<open>STEER_ANGLE_MAX\<close>, the limiter's result differs from the previous
  angle by at most \<open>min(delta, MAX_ANGLE_RATE)\<close>. At speed 20, previous angle 0 and
  candidate 50 the result is exactly that step (when the step is within both angle
  limits), not 50. For \<open>update\<close>: on a steering frame under the same conditions
  \<open>apply_angle_last\<close> changes by at most that step, and on any other frame it does not
  change.
\<close>

theorem steer_rate_limited_when_active:
  "(0 \<le> get_max_angle_delta P speed vm \<and> \<bar>previous\<bar> \<le> get_max_angle P speed vm
      \<and> \<bar>previous\<bar> \<le> STEER_ANGLE_MAX limits \<longrightarrow>
    \<bar>apply_tesla_steer_angle_limits P candidate previous speed measured True limits vm - previous\<bar>
      \<le> min (get_max_angle_delta P speed vm) MAX_ANGLE_RATE)
   \<and> (0 \<le> get_max_angle_delta P 20 vm
      \<and> min (get_max_angle_delta P 20 vm) MAX_ANGLE_RATE \<le> get_max_angle P 20 vm
      \<and> min (get_max_angle_delta P 20 vm) MAX_ANGLE_RATE \<le> STEER_ANGLE_MAX limits \<longrightarrow>
    apply_tesla_steer_angle_limits P 50 0 20 measured True limits vm
      = min (get_max_angle_delta P 20 vm) MAX_ANGLE_RATE
    \<and> apply_tesla_steer_angle_limits P 50 0 20 measured True limits vm \<noteq> 50)
   \<and> (frame s mod 2 = 0 \<and> latActive CC \<and> hands_on_level CS < 3
      \<and> 0 \<le> get_max_angle_delta P (vEgoRaw (out CS)) (VM self)
      \<and> \<bar>apply_angle_last s\<bar> \<le> get_max_angle P (vEgoRaw (out CS)) (VM self)
      \<and> \<bar>apply_angle_last s\<bar> \<le> STEER_ANGLE_MAX (ANGLE_LIMITS P) \<longrightarrow>
    \<bar>apply_angle_last (snd (snd (update P self s CC CS now_nanos))) - apply_angle_last s\<bar>
      \<le> min (get_max_angle_delta P (vEgoRaw (out CS)) (VM self)) MAX_ANGLE_RATE)
   \<and> (frame s mod 2 \<noteq> 0 \<longrightarrow>
    apply_angle_last (snd (snd (update P self s CC CS now_nanos))) = apply_angle_last s)"
proof (intro conjI impI)
  assume "0 \<le> get_max_angle_delta P speed vm \<and> \<bar>previous\<bar> \<le> get_max_angle P speed vm
      \<and> \<bar>previous\<bar> \<le> STEER_ANGLE_MAX limits"
  then show "\<bar>apply_tesla_steer_angle_limits P candidate previous speed measured True limits vm - previous\<bar>
      \<le> min (get_max_angle_delta P speed vm) MAX_ANGLE_RATE"
    by (intro limiter_active_step) simp_all
next
  let ?d = "min (get_max_angle_delta P 20 vm) MAX_ANGLE_RATE"
  assume a: "0 \<le> get_max_angle_delta P 20 vm \<and> ?d \<le> get_max_angle P 20 vm
      \<and> ?d \<le> STEER_ANGLE_MAX limits"
  have d0: "0 \<le> ?d" and d50: "?d \<le> 50" and d10: "?d \<le> 10"
    using a by (simp_all add: MAX_ANGLE_RATE_def)
  show e: "apply_tesla_steer_angle_limits P 50 0 20 measured True limits vm = ?d"
    by (rule limiter_active_jump [OF d0 d50]) (use a in simp_all)
  show "apply_tesla_steer_angle_limits P 50 0 20 measured True limits vm \<noteq> 50"
    unfolding e using d10 by linarith
next
  assume a: "frame s mod 2 = 0 \<and> latActive CC \<and> hands_on_level CS < 3
      \<and> 0 \<le> get_max_angle_delta P (vEgoRaw (out CS)) (VM self)
      \<and> \<bar>apply_angle_last s\<bar> \<le> get_max_angle P (vEgoRaw (out CS)) (VM self)
      \<and> \<bar>apply_angle_last s\<bar> \<le> STEER_ANGLE_MAX (ANGLE_LIMITS P)"
  then have f: "frame s mod 2 = 0" and la: "(latActive CC \<and> hands_on_level CS < 3) = True"
    by blast+
  have "apply_angle_last (snd (snd (update P self s CC CS now_nanos))) =
      apply_tesla_steer_angle_limits P
       (Actuators.steeringAngleDeg (actuators CC) + next_angle_modifier self s CC CS)
       (apply_angle_last s) (vEgoRaw (out CS)) (CarStateOut.steeringAngleDeg (out CS))
       True (ANGLE_LIMITS P) (VM self)"
    unfolding update_apply_angle_last_steer [OF f] next_apply_angle_def la ..
  moreover have "\<bar>apply_tesla_steer_angle_limits P
       (Actuators.steeringAngleDeg (actuators CC) + next_angle_modifier self s CC CS)
       (apply_angle_last s) (vEgoRaw (out CS)) (CarStateOut.steeringAngleDeg (out CS))
       True (ANGLE_LIMITS P) (VM self) - apply_angle_last s\<bar>
      \<le> min (get_max_angle_delta P (vEgoRaw (out CS)) (VM self)) MAX_ANGLE_RATE"
    by (intro limiter_active_step) (use a in blast)+
  ultimately show "\<bar>apply_angle_last (snd (snd (update P self s CC CS now_nanos))) - apply_angle_last s\<bar>
      \<le> min (get_max_angle_delta P (vEgoRaw (out CS)) (VM self)) MAX_ANGLE_RATE"
    by simp
next
  assume "frame s mod 2 \<noteq> 0"
  then show "apply_angle_last (snd (snd (update P self s CC CS now_nanos))) = apply_angle_last s"
    by (rule update_apply_angle_last_skip)
qed

lemma example_first_tick:
  "\<bar>m\<bar> \<le> 360 \<Longrightarrow>
   snd (snd (update example_params (example_controller b) init (example_CC False c a acc)
     (example_CS 0 v m h k) n)) =
   \<lparr> apply_angle_last = m, angle_modifier = 0, driver_torque = 0, frame = 1 \<rparr>"
  by (simp add: update_example_quiet init_def example_limiter_inactive)

lemma example_second_tick:
  "snd (snd (update example_params (example_controller b)
     \<lparr> apply_angle_last = x, angle_modifier = 0, driver_torque = 0, frame = 1 \<rparr>
     (example_CC l c a acc) (example_CS 0 v m h k) n)) =
   \<lparr> apply_angle_last = x, angle_modifier = 0, driver_torque = 0, frame = 2 \<rparr>"
  by (simp add: update_example_quiet)

lemma example_limiter_engage:
  "apply_tesla_steer_angle_limits example_params 40 40 20 40 True (ANGLE_LIMITS example_params)
     example_VM = 17943 / 1000"
  by (simp add: limiter_active example_max_angle example_max_angle_delta MAX_ANGLE_RATE_def
      rate_limit_def np_clip_def example_params_sel)

text \<open>
  C2 as stated fails. While lateral control is inactive \<open>apply_angle_last\<close> follows the
  measured angle, here from 0 to 90 degrees in one call. And on engaging at 40 degrees
  and speed 20, where the lateral-acceleration limit is 17.943 degrees, the angle is
  clamped to that limit in one call, far more than the step of 0.35886 degrees.
\<close>

theorem steer_rate_bound_counterexample:
  "\<not> \<bar>apply_angle_last (snd (snd (update example_params (example_controller True) init
          (example_CC False False 0 0) (example_CS 0 20 90 0 0) 0))) - apply_angle_last init\<bar>
      \<le> min (get_max_angle_delta example_params 20 example_VM) MAX_ANGLE_RATE
   \<and> \<not> \<bar>apply_angle_last (snd (snd (update example_params (example_controller True)
          (run example_params (example_controller True) init
             [(example_CC False False 0 0, example_CS 0 20 40 0 0, 0),
              (example_CC False False 0 0, example_CS 0 20 40 0 0, 0)])
          (example_CC True False 40 0) (example_CS 0 20 40 0 0) 0)))
        - apply_angle_last (run example_params (example_controller True) init
             [(example_CC False False 0 0, example_CS 0 20 40 0 0, 0),
              (example_CC False False 0 0, example_CS 0 20 40 0 0, 0)])\<bar>
      \<le> min (get_max_angle_delta example_params 20 example_VM) MAX_ANGLE_RATE"
proof -
  have r: "run example_params (example_controller True) init
             [(example_CC False False 0 0, example_CS 0 20 40 0 0, 0),
              (example_CC False False 0 0, example_CS 0 20 40 0 0, 0)] =
           \<lparr> apply_angle_last = 40, angle_modifier = 0, driver_torque = 0, frame = 2 \<rparr>"
    by (simp add: example_first_tick example_second_tick)
  have u: "apply_angle_last (snd (snd (update example_params (example_controller True)
          \<lparr> apply_angle_last = 40, angle_modifier = 0, driver_torque = 0, frame = 2 \<rparr>
          (example_CC True False 40 0) (example_CS 0 20 40 0 0) 0))) = 17943 / 1000"
    by (simp add: update_example_quiet example_limiter_engage)
  have f: "snd (snd (update example_params (example_controller True) init
          (example_CC False False 0 0) (example_CS 0 20 90 0 0) 0)) =
        \<lparr> apply_angle_last = 90, angle_modifier = 0, driver_torque = 0, frame = 1 \<rparr>"
    by (simp add: example_first_tick)
  show ?thesis
    unfolding r u f
    by (simp add: init_def example_max_angle_delta MAX_ANGLE_RATE_def)
qed

theorem steer_rate_limited_when_active_witness:
  "0 \<le> get_max_angle_delta example_params 20 example_VM
   \<and> \<bar>0\<bar> \<le> get_max_angle example_params 20 example_VM
   \<and> \<bar>0\<bar> \<le> STEER_ANGLE_MAX (ANGLE_LIMITS example_params)
   \<and> min (get_max_angle_delta example_params 20 example_VM) MAX_ANGLE_RATE
        \<le> get_max_angle example_params 20 example_VM
   \<and> min (get_max_angle_delta example_params 20 example_VM) MAX_ANGLE_RATE
        \<le> STEER_ANGLE_MAX (ANGLE_LIMITS example_params)
   \<and> apply_tesla_steer_angle_limits example_params 50 0 20 0 True (ANGLE_LIMITS example_params)
        example_VM = 35886 / 100000
   \<and> frame init mod 2 = 0
   \<and> \<bar>apply_angle_last (snd (snd (update example_params (example_controller True) init
          (example_CC True False 50 0) (example_CS 0 20 0 0 0) 0))) - apply_angle_last init\<bar>
        \<le> 35886 / 100000
   \<and> frame \<lparr> apply_angle_last = 7, angle_modifier = 0, driver_torque = 0, frame = 1 \<rparr> mod 2 \<noteq> 0
   \<and> apply_angle_last (snd (snd (update example_params (example_controller True)
          \<lparr> apply_angle_last = 7, angle_modifier = 0, driver_torque = 0, frame = 1 \<rparr>
          (example_CC True False 50 0) (example_CS 0 20 0 0 0) 0))) = 7"
  using steer_rate_limited_when_active
      [of example_params 20 example_VM 0 "ANGLE_LIMITS example_params" 50 0 init
        "example_CC True False 50 0" "example_CS 0 20 0 0 0" "example_controller True" 0]
    steer_rate_limited_when_active
      [of example_params 20 example_VM 0 "ANGLE_LIMITS example_params" 50 0
        "\<lparr> apply_angle_last = 7, angle_modifier = 0, driver_torque = 0, frame = 1 \<rparr>"
        "example_CC True False 50 0" "example_CS 0 20 0 0 0" "example_controller True" 0]
  by (simp add: example_max_angle example_max_angle_delta MAX_ANGLE_RATE_def example_sel init_def)

subsection \<open>The outbound commands by kind\<close>

lemma steering_control_part:
  "filter is_steering_control
     ((if c2 then [create_steering_control a b] else []) @
      (if c10 then [create_steering_allowed] else []) @
      (if own then (if c4 then [create_longitudinal_command st ac cn v la] else [])
       else (if k then [create_longitudinal_command st' ac' cn' v' la'] else []))) =
   (if c2 then [create_steering_control a b] else [])"
  by simp

lemma steering_allowed_part:
  "filter is_steering_allowed
     ((if c2 then [create_steering_control a b] else []) @
      (if c10 then [create_steering_allowed] else []) @
      (if own then (if c4 then [create_longitudinal_command st ac cn v la] else [])
       else (if k then [create_longitudinal_command st' ac' cn' v' la'] else []))) =
   (if c10 then [create_steering_allowed] else [])"
  by simp

lemma longitudinal_command_part:
  "filter is_longitudinal_command
     ((if c2 then [create_steering_control a b] else []) @
      (if c10 then [create_steering_allowed] else []) @
      (if own then (if c4 then [create_longitudinal_command st ac cn v la] else [])
       else (if k then [create_longitudinal_command st' ac' cn' v' la'] else []))) =
   (if own then (if c4 then [create_longitudinal_command st ac cn v la] else [])
    else (if k then [create_longitudinal_command st' ac' cn' v' la'] else []))"
  by simp

lemma update_steering_control:
  "filter is_steering_control (fst (snd (update P self s CC CS n))) =
     (if frame s mod 2 = 0
      then [create_steering_control (next_apply_angle P self s CC CS)
              (latActive CC \<and> hands_on_level CS < 3)]
      else [])"
  by (simp only: update_can_sends steering_control_part)

lemma update_steering_allowed:
  "filter is_steering_allowed (fst (snd (update P self s CC CS n))) =
     (if frame s mod 10 = 0 then [create_steering_allowed] else [])"
  by (simp only: update_can_sends steering_allowed_part)

lemma update_longitudinal_command:
  "filter is_longitudinal_command (fst (snd (update P self s CC CS n))) =
     (if openpilotLongitudinalControl self then
        (if frame s mod 4 = 0 then
           [create_longitudinal_command (if cancel (cruiseControl CC) then 13 else 4)
              (np_clip (Actuators.accel (actuators CC)) (ACCEL_MIN P) (ACCEL_MAX P))
              ((frame s div 4) mod 8) (vEgo (out CS)) (longActive CC)]
         else [])
      else
        (if cancel (cruiseControl CC) then
           [create_longitudinal_command 13 0 ((DAS_controlCounter (das_control CS) + 1) mod 8)
              (vEgo (out CS)) False]
         else []))"
  by (simp only: update_can_sends longitudinal_command_part)

lemma if_singleton_length: "length (if c then [x] else []) = (if c then 1 else 0)"
  by simp

lemma if_nested_length:
  "length (if own then (if c then [x] else []) else (if k then [y] else [])) =
     (if own then (if c then 1 else 0) else (if k then 1 else 0))"
  by simp

text \<open>
  C4, as the code has it. Each call emits the steering command once if
  \<open>frame mod 2 = 0\<close> and not otherwise, and the steering-allowed heartbeat once if
  \<open>frame mod 10 = 0\<close> and not otherwise. With openpilot longitudinal control it emits
  the longitudinal command once if \<open>frame mod 4 = 0\<close> and not otherwise; without it,
  the longitudinal command is emitted once on every frame on which a cancel is requested,
  whatever the frame index, and on no other frame.
\<close>

theorem command_schedule:
  "length (filter is_steering_control (fst (snd (update P self s CC CS now_nanos)))) =
     (if frame s mod 2 = 0 then 1 else 0)
   \<and> length (filter is_steering_allowed (fst (snd (update P self s CC CS now_nanos)))) =
     (if frame s mod 10 = 0 then 1 else 0)
   \<and> length (filter is_longitudinal_command (fst (snd (update P self s CC CS now_nanos)))) =
     (if openpilotLongitudinalControl self
      then (if frame s mod 4 = 0 then 1 else 0)
      else (if cancel (cruiseControl CC) then 1 else 0))"
proof (intro conjI)
  show "length (filter is_steering_control (fst (snd (update P self s CC CS now_nanos)))) =
     (if frame s mod 2 = 0 then 1 else 0)"
    by (simp only: update_steering_control if_singleton_length)
  show "length (filter is_steering_allowed (fst (snd (update P self s CC CS now_nanos)))) =
     (if frame s mod 10 = 0 then 1 else 0)"
    by (simp only: update_steering_allowed if_singleton_length)
  show "length (filter is_longitudinal_command (fst (snd (update P self s CC CS now_nanos)))) =
     (if openpilotLongitudinalControl self
      then (if frame s mod 4 = 0 then 1 else 0)
      else (if cancel (cruiseControl CC) then 1 else 0))"
    by (simp only: update_longitudinal_command if_nested_length)
qed

lemma example_state_first:
  "snd (snd (update example_params (example_controller b) init (example_CC False c a acc)
     (example_CS 0 v 0 h k) n)) =
   \<lparr> apply_angle_last = 0, angle_modifier = 0, driver_torque = 0, frame = 1 \<rparr>"
  by (simp add: example_first_tick)

theorem command_schedule_witness:
  "length (filter is_steering_control (fst (snd (update example_params (example_controller True)
      init (example_CC False False 0 0) (example_CS 0 20 0 0 0) 0)))) = 1
   \<and> length (filter is_steering_allowed (fst (snd (update example_params (example_controller True)
      init (example_CC False False 0 0) (example_CS 0 20 0 0 0) 0)))) = 1
   \<and> length (filter is_longitudinal_command (fst (snd (update example_params (example_controller True)
      init (example_CC False False 0 0) (example_CS 0 20 0 0 0) 0)))) = 1"
  using command_schedule [of example_params "example_controller True" init
      "example_CC False False 0 0" "example_CS 0 20 0 0 0" 0]
  by (simp add: init_def example_sel)

text \<open>
  C4 as stated fails: without openpilot longitudinal control and with a cancel request,
  the call at frame 1 emits a longitudinal command, and 1 is not a multiple of 4.
\<close>

theorem longitudinal_command_off_schedule:
  "frame (snd (snd (update example_params (example_controller False) init
       (example_CC False True 0 0) (example_CS 0 20 0 0 6) 0))) mod 4 \<noteq> 0
   \<and> fst (snd (update example_params (example_controller False)
       (snd (snd (update example_params (example_controller False) init
          (example_CC False True 0 0) (example_CS 0 20 0 0 6) 0)))
       (example_CC False True 0 0) (example_CS 0 20 0 0 6) 0)) =
     [create_longitudinal_command 13 0 7 20 False]"
  unfolding example_state_first
  by (simp add: update_can_sends example_sel)

subsection \<open>The longitudinal command\<close>

lemma counter_range: "0 \<le> (x :: int) mod 8 \<and> x mod 8 \<le> 7"
proof -
  have "x mod 8 < 8" by (rule pos_mod_bound) simp
  moreover have "0 \<le> x mod 8" by (rule pos_mod_sign) simp
  ultimately show ?thesis by simp
qed

lemma longitudinal_member:
  "create_longitudinal_command st a c v act \<in> set msgs \<longleftrightarrow>
   create_longitudinal_command st a c v act \<in> set (filter is_longitudinal_command msgs)"
  by simp

lemma singleton_or_empty_member:
  "m \<in> set (if own then (if c then [x] else []) else (if k then [y] else [])) \<Longrightarrow>
   (own \<and> c \<and> m = x) \<or> (\<not> own \<and> k \<and> m = y)"
  by (cases own; cases c; cases k; simp)

text \<open>
  C6. Every longitudinal command that \<open>update\<close> emits carries a counter in \<open>[0, 7]\<close>.
  With openpilot longitudinal control the counter is \<open>(frame div 4) mod 8\<close>. Without it,
  a command is emitted only on a cancel request, and it has the counter
  \<open>(DAS_controlCounter + 1) mod 8\<close>, the state 13 (cancel), acceleration 0 and the
  longitudinal-active flag false; with an observed counter of 6 the emitted counter is 7.
\<close>

theorem longitudinal_command_counter:
  "(\<forall>st a c v act.
      create_longitudinal_command st a c v act \<in> set (fst (snd (update P self s CC CS now_nanos))) \<longrightarrow>
        0 \<le> c \<and> c \<le> 7
        \<and> (if openpilotLongitudinalControl self
           then c = (frame s div 4) mod 8
           else cancel (cruiseControl CC)
                \<and> c = (DAS_controlCounter (das_control CS) + 1) mod 8
                \<and> st = 13 \<and> a = 0 \<and> \<not> act))
   \<and> (\<not> openpilotLongitudinalControl self \<and> cancel (cruiseControl CC) \<longrightarrow>
        filter is_longitudinal_command (fst (snd (update P self s CC CS now_nanos))) =
          [create_longitudinal_command 13 0 ((DAS_controlCounter (das_control CS) + 1) mod 8)
             (vEgo (out CS)) False])
   \<and> (\<not> openpilotLongitudinalControl self \<and> cancel (cruiseControl CC)
        \<and> DAS_controlCounter (das_control CS) = 6 \<longrightarrow>
        create_longitudinal_command 13 0 7 (vEgo (out CS)) False
          \<in> set (fst (snd (update P self s CC CS now_nanos))))"
proof (intro conjI allI impI)
  fix st a c v act
  assume "create_longitudinal_command st a c v act \<in> set (fst (snd (update P self s CC CS now_nanos)))"
  then have "create_longitudinal_command st a c v act
      \<in> set (filter is_longitudinal_command (fst (snd (update P self s CC CS now_nanos))))"
    by (simp only: longitudinal_member [symmetric])
  then have "(openpilotLongitudinalControl self \<and> frame s mod 4 = 0
        \<and> create_longitudinal_command st a c v act =
            create_longitudinal_command (if cancel (cruiseControl CC) then 13 else 4)
              (np_clip (Actuators.accel (actuators CC)) (ACCEL_MIN P) (ACCEL_MAX P))
              ((frame s div 4) mod 8) (vEgo (out CS)) (longActive CC))
      \<or> (\<not> openpilotLongitudinalControl self \<and> cancel (cruiseControl CC)
        \<and> create_longitudinal_command st a c v act =
            create_longitudinal_command 13 0 ((DAS_controlCounter (das_control CS) + 1) mod 8)
              (vEgo (out CS)) False)"
    unfolding update_longitudinal_command by (rule singleton_or_empty_member)
  then consider
      (owned) "openpilotLongitudinalControl self" "c = (frame s div 4) mod 8"
    | (unowned) "\<not> openpilotLongitudinalControl self" "cancel (cruiseControl CC)"
        "c = (DAS_controlCounter (das_control CS) + 1) mod 8" "st = 13" "a = 0" "\<not> act"
    by blast
  then show "0 \<le> c" "c \<le> 7"
    "if openpilotLongitudinalControl self
           then c = (frame s div 4) mod 8
           else cancel (cruiseControl CC)
                \<and> c = (DAS_controlCounter (das_control CS) + 1) mod 8
                \<and> st = 13 \<and> a = 0 \<and> \<not> act"
    using counter_range [of "frame s div 4"]
      counter_range [of "DAS_controlCounter (das_control CS) + 1"]
    by (cases; simp only: if_True if_False simp_thms)+
next
  assume "\<not> openpilotLongitudinalControl self \<and> cancel (cruiseControl CC)"
  then show "filter is_longitudinal_command (fst (snd (update P self s CC CS now_nanos))) =
          [create_longitudinal_command 13 0 ((DAS_controlCounter (das_control CS) + 1) mod 8)
             (vEgo (out CS)) False]"
    by (simp only: update_longitudinal_command if_True if_False)
next
  assume a: "\<not> openpilotLongitudinalControl self \<and> cancel (cruiseControl CC)
        \<and> DAS_controlCounter (das_control CS) = 6"
  then have "filter is_longitudinal_command (fst (snd (update P self s CC CS now_nanos))) =
          [create_longitudinal_command 13 0 ((6 + 1) mod 8) (vEgo (out CS)) False]"
    by (simp only: update_longitudinal_command if_True if_False)
  then have "create_longitudinal_command 13 0 7 (vEgo (out CS)) False
      \<in> set (filter is_longitudinal_command (fst (snd (update P self s CC CS now_nanos))))"
    by simp
  then show "create_longitudinal_command 13 0 7 (vEgo (out CS)) False
          \<in> set (fst (snd (update P self s CC CS now_nanos)))"
    by (simp only: longitudinal_member [symmetric])
qed

theorem longitudinal_command_counter_witness:
  "\<not> openpilotLongitudinalControl (example_controller False)
   \<and> cancel (cruiseControl (example_CC False True 0 0))
   \<and> DAS_controlCounter (das_control (example_CS 0 20 0 0 6)) = 6
   \<and> filter is_longitudinal_command (fst (snd (update example_params (example_controller False)
        init (example_CC False True 0 0) (example_CS 0 20 0 0 6) 0))) =
        [create_longitudinal_command 13 0 7 20 False]
   \<and> create_longitudinal_command 13 0 7 20 False
        \<in> set (fst (snd (update example_params (example_controller False)
        init (example_CC False True 0 0) (example_CS 0 20 0 0 6) 0)))"
  using longitudinal_command_counter [of example_params "example_controller False" init
      "example_CC False True 0 0" "example_CS 0 20 0 0 6" 0]
  by (simp add: example_sel)

text \<open>
  C7. With openpilot longitudinal control, on a frame with \<open>frame mod 4 = 0\<close> the
  longitudinal command emitted has state 13 (cancel) if a cancel is requested and 4
  (active) otherwise, and its acceleration is the desired acceleration clamped to
  \<open>[ACCEL_MIN, ACCEL_MAX]\<close>: within the bounds, and the desired value itself when that
  is within them. A desired acceleration of 5 with \<open>ACCEL_MAX = 2\<close> is emitted as 2.
\<close>

theorem owned_longitudinal_command:
  "(openpilotLongitudinalControl self \<and> frame s mod 4 = 0 \<longrightarrow>
      filter is_longitudinal_command (fst (snd (update P self s CC CS now_nanos))) =
        [create_longitudinal_command (if cancel (cruiseControl CC) then 13 else 4)
           (np_clip (accel (actuators CC)) (ACCEL_MIN P) (ACCEL_MAX P))
           ((frame s div 4) mod 8) (vEgo (out CS)) (longActive CC)])
   \<and> (ACCEL_MIN P \<le> ACCEL_MAX P \<longrightarrow>
        ACCEL_MIN P \<le> np_clip (accel (actuators CC)) (ACCEL_MIN P) (ACCEL_MAX P)
        \<and> np_clip (accel (actuators CC)) (ACCEL_MIN P) (ACCEL_MAX P) \<le> ACCEL_MAX P)
   \<and> (ACCEL_MIN P \<le> accel (actuators CC) \<and> accel (actuators CC) \<le> ACCEL_MAX P \<longrightarrow>
        np_clip (accel (actuators CC)) (ACCEL_MIN P) (ACCEL_MAX P) = accel (actuators CC))
   \<and> (accel (actuators CC) = 5 \<and> ACCEL_MAX P = 2 \<longrightarrow>
        np_clip (accel (actuators CC)) (ACCEL_MIN P) (ACCEL_MAX P) = 2)"
proof (intro conjI impI)
  assume "openpilotLongitudinalControl self \<and> frame s mod 4 = 0"
  then show "filter is_longitudinal_command (fst (snd (update P self s CC CS now_nanos))) =
        [create_longitudinal_command (if cancel (cruiseControl CC) then 13 else 4)
           (np_clip (accel (actuators CC)) (ACCEL_MIN P) (ACCEL_MAX P))
           ((frame s div 4) mod 8) (vEgo (out CS)) (longActive CC)]"
    by (simp only: update_longitudinal_command if_True simp_thms)
next
  assume "ACCEL_MIN P \<le> ACCEL_MAX P"
  then show "ACCEL_MIN P \<le> np_clip (accel (actuators CC)) (ACCEL_MIN P) (ACCEL_MAX P)"
    by (rule np_clip_ge)
  show "np_clip (accel (actuators CC)) (ACCEL_MIN P) (ACCEL_MAX P) \<le> ACCEL_MAX P"
    by (rule np_clip_le)
next
  assume "ACCEL_MIN P \<le> accel (actuators CC) \<and> accel (actuators CC) \<le> ACCEL_MAX P"
  then show "np_clip (accel (actuators CC)) (ACCEL_MIN P) (ACCEL_MAX P) = accel (actuators CC)"
    by (intro np_clip_id) simp_all
next
  assume "accel (actuators CC) = 5 \<and> ACCEL_MAX P = 2"
  then show "np_clip (accel (actuators CC)) (ACCEL_MIN P) (ACCEL_MAX P) = 2"
    by (simp add: np_clip_def)
qed

theorem owned_longitudinal_command_witness:
  "openpilotLongitudinalControl (example_controller True) \<and> frame init mod 4 = 0
   \<and> accel (actuators (example_CC False False 0 5)) = 5 \<and> ACCEL_MAX example_params = 2
   \<and> ACCEL_MIN example_params \<le> ACCEL_MAX example_params
   \<and> filter is_longitudinal_command (fst (snd (update example_params (example_controller True)
        init (example_CC False False 0 5) (example_CS 0 20 0 0 0) 0))) =
        [create_longitudinal_command 4 2 0 20 True]
   \<and> ACCEL_MIN example_params \<le> accel (actuators (example_CC False True 0 1))
   \<and> accel (actuators (example_CC False True 0 1)) \<le> ACCEL_MAX example_params
   \<and> filter is_longitudinal_command (fst (snd (update example_params (example_controller True)
        init (example_CC False True 0 1) (example_CS 0 20 0 0 0) 0))) =
        [create_longitudinal_command 13 1 0 20 True]"
  using owned_longitudinal_command [of "example_controller True" init example_params
      "example_CC False False 0 5" "example_CS 0 20 0 0 0" 0]
    owned_longitudinal_command [of "example_controller True" init example_params
      "example_CC False True 0 1" "example_CS 0 20 0 0 0" 0]
  by (simp add: example_sel init_def)

subsection \<open>The lateral-active flag\<close>

lemma torque_input_hands_on:
  "torque_input (CS\<lparr> hands_on_level := h \<rparr>) = torque_input CS"
  by (simp add: torque_input_def)

lemma next_angle_modifier_hands_on:
  "next_angle_modifier self s CC (CS\<lparr> hands_on_level := h \<rparr>) = next_angle_modifier self s CC CS"
  by (simp add: next_angle_modifier_def angle_from_torque_def torque_input_hands_on)

lemma if_singleton: "(if True then [x] else []) = [x]"
  by simp

text \<open>
  C9. The flag given to the limiter and put into the steering command is
  \<open>CC.latActive \<and> CS.hands_on_level < 3\<close>. So on a steering frame with a hands-on level
  of 3 or more, also when lateral control is requested, the limiter runs inactive: the
  applied angle is the measured steering angle (behind the final clamp to
  \<open>STEER_ANGLE_MAX\<close>, so the measured angle itself when within it) and the steering
  command is sent with the flag false. The angle modifier is gated on \<open>CC.latActive\<close>
  alone: with lateral control requested it is the clamped torque angle whatever the
  hands-on level is, and no value of the hands-on level changes it.
\<close>

theorem lateral_active_flag:
  "(frame s mod 2 = 0 \<longrightarrow>
      apply_angle_last (snd (snd (update P self s CC CS now_nanos))) =
        apply_tesla_steer_angle_limits P
          (Actuators.steeringAngleDeg (actuators CC)
             + angle_modifier (snd (snd (update P self s CC CS now_nanos))))
          (apply_angle_last s) (vEgoRaw (out CS)) (CarStateOut.steeringAngleDeg (out CS))
          (latActive CC \<and> hands_on_level CS < 3) (ANGLE_LIMITS P) (VM self)
      \<and> filter is_steering_control (fst (snd (update P self s CC CS now_nanos))) =
        [create_steering_control (apply_angle_last (snd (snd (update P self s CC CS now_nanos))))
           (latActive CC \<and> hands_on_level CS < 3)])
   \<and> (frame s mod 2 = 0 \<and> 3 \<le> hands_on_level CS \<longrightarrow>
      apply_angle_last (snd (snd (update P self s CC CS now_nanos))) =
        np_clip (CarStateOut.steeringAngleDeg (out CS))
          (- STEER_ANGLE_MAX (ANGLE_LIMITS P)) (STEER_ANGLE_MAX (ANGLE_LIMITS P))
      \<and> filter is_steering_control (fst (snd (update P self s CC CS now_nanos))) =
        [create_steering_control
           (np_clip (CarStateOut.steeringAngleDeg (out CS))
              (- STEER_ANGLE_MAX (ANGLE_LIMITS P)) (STEER_ANGLE_MAX (ANGLE_LIMITS P)))
           False])
   \<and> (frame s mod 2 = 0 \<and> 3 \<le> hands_on_level CS
        \<and> \<bar>CarStateOut.steeringAngleDeg (out CS)\<bar> \<le> STEER_ANGLE_MAX (ANGLE_LIMITS P) \<longrightarrow>
      apply_angle_last (snd (snd (update P self s CC CS now_nanos))) =
        CarStateOut.steeringAngleDeg (out CS))
   \<and> (frame s mod 2 = 0 \<and> latActive CC \<longrightarrow>
      angle_modifier (snd (snd (update P self s CC CS now_nanos))) =
        np_clip (angle_from_torque self s CS) (angle_modifier s - 5) (angle_modifier s + 5))
   \<and> angle_modifier (snd (snd (update P self s CC (CS\<lparr> hands_on_level := h \<rparr>) now_nanos))) =
      angle_modifier (snd (snd (update P self s CC CS now_nanos)))"
proof (intro conjI impI)
  assume f: "frame s mod 2 = 0"
  show "apply_angle_last (snd (snd (update P self s CC CS now_nanos))) =
        apply_tesla_steer_angle_limits P
          (Actuators.steeringAngleDeg (actuators CC)
             + angle_modifier (snd (snd (update P self s CC CS now_nanos))))
          (apply_angle_last s) (vEgoRaw (out CS)) (CarStateOut.steeringAngleDeg (out CS))
          (latActive CC \<and> hands_on_level CS < 3) (ANGLE_LIMITS P) (VM self)"
    unfolding update_apply_angle_last_steer [OF f] update_angle_modifier_steer [OF f]
      next_apply_angle_def ..
  show "filter is_steering_control (fst (snd (update P self s CC CS now_nanos))) =
        [create_steering_control (apply_angle_last (snd (snd (update P self s CC CS now_nanos))))
           (latActive CC \<and> hands_on_level CS < 3)]"
    unfolding update_apply_angle_last_steer [OF f] update_steering_control
    using f by (simp only: if_True simp_thms)
next
  assume a: "frame s mod 2 = 0 \<and> 3 \<le> hands_on_level CS"
  then have f: "frame s mod 2 = 0" and la: "(latActive CC \<and> hands_on_level CS < 3) = False"
    by simp_all
  show e: "apply_angle_last (snd (snd (update P self s CC CS now_nanos))) =
        np_clip (CarStateOut.steeringAngleDeg (out CS))
          (- STEER_ANGLE_MAX (ANGLE_LIMITS P)) (STEER_ANGLE_MAX (ANGLE_LIMITS P))"
    unfolding update_apply_angle_last_steer [OF f] next_apply_angle_def la limiter_inactive ..
  show "filter is_steering_control (fst (snd (update P self s CC CS now_nanos))) =
        [create_steering_control
           (np_clip (CarStateOut.steeringAngleDeg (out CS))
              (- STEER_ANGLE_MAX (ANGLE_LIMITS P)) (STEER_ANGLE_MAX (ANGLE_LIMITS P)))
           False]"
    unfolding e [symmetric] update_apply_angle_last_steer [OF f] update_steering_control la
    using f by (simp only: if_True simp_thms)
next
  assume a: "frame s mod 2 = 0 \<and> 3 \<le> hands_on_level CS
        \<and> \<bar>CarStateOut.steeringAngleDeg (out CS)\<bar> \<le> STEER_ANGLE_MAX (ANGLE_LIMITS P)"
  then have f: "frame s mod 2 = 0" and la: "(latActive CC \<and> hands_on_level CS < 3) = False"
    by simp_all
  have "np_clip (CarStateOut.steeringAngleDeg (out CS))
          (- STEER_ANGLE_MAX (ANGLE_LIMITS P)) (STEER_ANGLE_MAX (ANGLE_LIMITS P)) =
        CarStateOut.steeringAngleDeg (out CS)"
    by (rule np_clip_id) (use a in linarith)+
  then show "apply_angle_last (snd (snd (update P self s CC CS now_nanos))) =
        CarStateOut.steeringAngleDeg (out CS)"
    unfolding update_apply_angle_last_steer [OF f] next_apply_angle_def la limiter_inactive .
next
  assume a: "frame s mod 2 = 0 \<and> latActive CC"
  then have f: "frame s mod 2 = 0" and l: "latActive CC = True" by simp_all
  show "angle_modifier (snd (snd (update P self s CC CS now_nanos))) =
        np_clip (angle_from_torque self s CS) (angle_modifier s - 5) (angle_modifier s + 5)"
    unfolding update_angle_modifier_steer [OF f] next_angle_modifier_def l
    by (simp only: if_True)
next
  show "angle_modifier (snd (snd (update P self s CC (CS\<lparr> hands_on_level := h \<rparr>) now_nanos))) =
      angle_modifier (snd (snd (update P self s CC CS now_nanos)))"
  proof (cases "frame s mod 2 = 0")
    case True
    show ?thesis
      unfolding update_angle_modifier_steer [OF True] next_angle_modifier_hands_on ..
  next
    case False
    show ?thesis
      unfolding update_angle_modifier_skip [OF False] ..
  qed
qed

theorem lateral_active_flag_witness:
  "frame init mod 2 = 0 \<and> 3 \<le> hands_on_level (example_CS 0 20 30 3 0)
   \<and> latActive (example_CC True False 50 0)
   \<and> \<bar>CarStateOut.steeringAngleDeg (out (example_CS 0 20 30 3 0))\<bar>
        \<le> STEER_ANGLE_MAX (ANGLE_LIMITS example_params)
   \<and> apply_angle_last (snd (snd (update example_params (example_controller True) init
        (example_CC True False 50 0) (example_CS 0 20 30 3 0) 0))) = 30
   \<and> filter is_steering_control (fst (snd (update example_params (example_controller True) init
        (example_CC True False 50 0) (example_CS 0 20 30 3 0) 0))) =
        [create_steering_control 30 False]"
proof -
  have h: "frame init mod 2 = 0" "3 \<le> hands_on_level (example_CS 0 20 30 3 0)"
    "latActive (example_CC True False 50 0)"
    "\<bar>CarStateOut.steeringAngleDeg (out (example_CS 0 20 30 3 0))\<bar>
        \<le> STEER_ANGLE_MAX (ANGLE_LIMITS example_params)"
    by (simp_all add: example_sel init_def)
  note t = lateral_active_flag [of init example_params "example_controller True"
      "example_CC True False 50 0" "example_CS 0 20 30 3 0" 0 0]
  from t h have a: "apply_angle_last (snd (snd (update example_params (example_controller True) init
        (example_CC True False 50 0) (example_CS 0 20 30 3 0) 0))) =
      CarStateOut.steeringAngleDeg (out (example_CS 0 20 30 3 0))"
    by blast
  from t h have b: "filter is_steering_control (fst (snd (update example_params
        (example_controller True) init (example_CC True False 50 0) (example_CS 0 20 30 3 0) 0))) =
      [create_steering_control
         (np_clip (CarStateOut.steeringAngleDeg (out (example_CS 0 20 30 3 0)))
            (- STEER_ANGLE_MAX (ANGLE_LIMITS example_params))
            (STEER_ANGLE_MAX (ANGLE_LIMITS example_params)))
         False]"
    by blast
  show ?thesis
    using h a b by (simp add: example_sel np_clip_def)
qed

subsection \<open>The actuator echo\<close>

text \<open>
  C10. The actuators that \<open>update\<close> returns are the input actuators with
  \<open>steeringAngleDeg\<close> set to \<open>apply_angle_last\<close> as the call leaves it; \<open>accel\<close> and
  every other field are those of the input. On a frame with \<open>frame mod 2 \<noteq> 0\<close> the
  limiter is not run and \<open>apply_angle_last\<close>, hence the echoed angle, is the value the
  previous call left; it is 0 in the initial state.
\<close>

theorem actuator_echo:
  "fst (update P self s CC CS now_nanos) =
     (actuators CC)\<lparr> Actuators.steeringAngleDeg :=
        apply_angle_last (snd (snd (update P self s CC CS now_nanos))) \<rparr>
   \<and> accel (fst (update P self s CC CS now_nanos)) = accel (actuators CC)
   \<and> Actuators.more (fst (update P self s CC CS now_nanos)) = Actuators.more (actuators CC)
   \<and> (frame s mod 2 \<noteq> 0 \<longrightarrow>
        apply_angle_last (snd (snd (update P self s CC CS now_nanos))) = apply_angle_last s
        \<and> Actuators.steeringAngleDeg (fst (update P self s CC CS now_nanos)) = apply_angle_last s)
   \<and> apply_angle_last init = 0"
proof -
  have e: "fst (update P self s CC CS now_nanos) =
     (actuators CC)\<lparr> Actuators.steeringAngleDeg :=
        apply_angle_last (snd (snd (update P self s CC CS now_nanos))) \<rparr>"
    by (simp add: update_actuators update_state)
  have "frame s mod 2 \<noteq> 0 \<longrightarrow>
        apply_angle_last (snd (snd (update P self s CC CS now_nanos))) = apply_angle_last s"
    by (simp add: update_apply_angle_last_skip)
  moreover have "accel (fst (update P self s CC CS now_nanos)) = accel (actuators CC)"
    "Actuators.more (fst (update P self s CC CS now_nanos)) = Actuators.more (actuators CC)"
    "Actuators.steeringAngleDeg (fst (update P self s CC CS now_nanos)) =
       apply_angle_last (snd (snd (update P self s CC CS now_nanos)))"
    by (simp_all add: update_actuators update_state)
  ultimately show ?thesis
    using e by (simp add: init_def)
qed

theorem actuator_echo_witness:
  "frame \<lparr> apply_angle_last = 7, angle_modifier = 0, driver_torque = 0, frame = 1 \<rparr> mod 2 \<noteq> 0
   \<and> fst (update example_params (example_controller True)
        \<lparr> apply_angle_last = 7, angle_modifier = 0, driver_torque = 0, frame = 1 \<rparr>
        (example_CC True False 50 1) (example_CS 0 20 30 0 0) 0) =
      \<lparr> Actuators.steeringAngleDeg = 7, accel = 1 \<rparr>"
  using actuator_echo [of example_params "example_controller True"
      "\<lparr> apply_angle_last = 7, angle_modifier = 0, driver_torque = 0, frame = 1 \<rparr>"
      "example_CC True False 50 1" "example_CS 0 20 30 0 0" 0]
  by (simp add: example_CC_def)

subsection \<open>The angle modifier\<close>

lemma update_angle_modifier:
  "angle_modifier (snd (snd (update P self s CC CS n))) =
     (if frame s mod 2 = 0 then next_angle_modifier self s CC CS else angle_modifier s)"
  by (simp add: update_state)

lemma update_driver_torque:
  "driver_torque (snd (snd (update P self s CC CS n))) =
     fst (filter_update self (driver_torque s) (torque_input CS))"
  by (simp add: update_state)

lemma next_angle_modifier_step:
  "latActive CC \<Longrightarrow> \<bar>next_angle_modifier self s CC CS - angle_modifier s\<bar> \<le> 5"
  unfolding next_angle_modifier_def np_clip_def
  by (auto simp: min_def max_def abs_le_iff)

text \<open>
  C5, as the code has it. On a steering frame (\<open>frame mod 2 = 0\<close>) with lateral control
  requested, the angle modifier changes by at most 5 degrees. On a steering frame with
  lateral control not requested it is set to exactly 0, whatever it was, so that change
  is not bounded by 5. On every other frame it does not change.
\<close>

theorem angle_modifier_step:
  "(frame s mod 2 = 0 \<and> latActive CC \<longrightarrow>
      \<bar>angle_modifier (snd (snd (update P self s CC CS now_nanos))) - angle_modifier s\<bar> \<le> 5)
   \<and> (frame s mod 2 = 0 \<and> \<not> latActive CC \<longrightarrow>
      angle_modifier (snd (snd (update P self s CC CS now_nanos))) = 0)
   \<and> (frame s mod 2 \<noteq> 0 \<longrightarrow>
      angle_modifier (snd (snd (update P self s CC CS now_nanos))) = angle_modifier s)"
proof (intro conjI impI)
  assume a: "frame s mod 2 = 0 \<and> latActive CC"
  then have f: "frame s mod 2 = 0" and l: "latActive CC" by simp_all
  show "\<bar>angle_modifier (snd (snd (update P self s CC CS now_nanos))) - angle_modifier s\<bar> \<le> 5"
    unfolding update_angle_modifier_steer [OF f] by (rule next_angle_modifier_step [OF l])
next
  assume a: "frame s mod 2 = 0 \<and> \<not> latActive CC"
  then have f: "frame s mod 2 = 0" and l: "latActive CC = False" by simp_all
  show "angle_modifier (snd (snd (update P self s CC CS now_nanos))) = 0"
    unfolding update_angle_modifier_steer [OF f] next_angle_modifier_def l by (simp only: if_False)
next
  assume "frame s mod 2 \<noteq> 0"
  then show "angle_modifier (snd (snd (update P self s CC CS now_nanos))) = angle_modifier s"
    by (rule update_angle_modifier_skip)
qed

lemma torque_input_example: "torque_input (example_CS (7 / 2) v m h c) = 3"
  by (simp add: torque_input_def example_CS_sel np_clip_def np_sign_def)

lemma example_filter:
  "first_order_filter (3 / 1000) (1 / 100) x u = ((3 * x + 10 * u) / 13, (3 * x + 10 * u) / 13)"
  by (simp add: first_order_filter_def Let_def field_simps)

lemma driver_torque_example:
  "driver_torque (snd (snd (update P (example_controller b) s CC (example_CS (7 / 2) v m h c) n))) =
     (3 * driver_torque s + 30) / 13"
  by (simp add: update_driver_torque torque_input_example example_controller_sel
      example_filter)

lemma angle_from_torque_example:
  "angle_from_torque (example_controller b) s (example_CS (7 / 2) 20 m h k) =
     5 * ((3 * driver_torque s + 30) / 13)"
proof -
  have "angle_from_torque (example_controller b) s (example_CS (7 / 2) 20 m h k) =
      (3 * driver_torque s + 10 * 3) / 13 / 20\<^sup>2 * 2000"
    by (simp only: angle_from_torque_def torque_input_example example_sel example_filter
        degrees_example_VM snd_conv max.idem)
  also have "\<dots> = 5 * ((3 * driver_torque s + 30) / 13)"
    by (simp add: field_simps)
  finally show ?thesis .
qed

lemma next_angle_modifier_example:
  "next_angle_modifier (example_controller b) s (example_CC True c a acc)
     (example_CS (7 / 2) 20 m h k) =
   np_clip (5 * ((3 * driver_torque s + 30) / 13)) (angle_modifier s - 5) (angle_modifier s + 5)"
  by (simp only: next_angle_modifier_def angle_from_torque_example example_CC_sel if_True)

theorem angle_modifier_step_witness:
  "frame init mod 2 = 0 \<and> latActive (example_CC True False 0 0)
   \<and> angle_modifier (snd (snd (update example_params (example_controller True) init
        (example_CC True False 0 0) (example_CS (7 / 2) 20 0 0 0) 0))) = 5
   \<and> \<bar>angle_modifier (snd (snd (update example_params (example_controller True) init
        (example_CC True False 0 0) (example_CS (7 / 2) 20 0 0 0) 0))) - angle_modifier init\<bar> \<le> 5
   \<and> \<not> latActive (example_CC False False 0 0)
   \<and> angle_modifier (snd (snd (update example_params (example_controller True) init
        (example_CC False False 0 0) (example_CS (7 / 2) 20 0 0 0) 0))) = 0
   \<and> frame \<lparr> apply_angle_last = 0, angle_modifier = 5, driver_torque = 30 / 13, frame = 1 \<rparr> mod 2 \<noteq> 0
   \<and> angle_modifier (snd (snd (update example_params (example_controller True)
        \<lparr> apply_angle_last = 0, angle_modifier = 5, driver_torque = 30 / 13, frame = 1 \<rparr>
        (example_CC True False 0 0) (example_CS (7 / 2) 20 0 0 0) 0))) = 5"
proof -
  have h: "frame init mod 2 = 0" "latActive (example_CC True False 0 0)"
    "\<not> latActive (example_CC False False 0 0)"
    "frame \<lparr> apply_angle_last = 0, angle_modifier = 5, driver_torque = 30 / 13, frame = 1 \<rparr> mod 2 \<noteq> 0"
    by (simp_all add: init_def example_sel)
  have v: "angle_modifier (snd (snd (update example_params (example_controller True) init
        (example_CC True False 0 0) (example_CS (7 / 2) 20 0 0 0) 0))) = 5"
    unfolding update_angle_modifier_steer [OF h(1)] next_angle_modifier_example
    by (simp add: init_def np_clip_def)
  note t1 = angle_modifier_step [of init "example_CC True False 0 0" example_params
      "example_controller True" "example_CS (7 / 2) 20 0 0 0" 0]
  note t2 = angle_modifier_step [of init "example_CC False False 0 0" example_params
      "example_controller True" "example_CS (7 / 2) 20 0 0 0" 0]
  note t3 = angle_modifier_step
      [of "\<lparr> apply_angle_last = 0, angle_modifier = 5, driver_torque = 30 / 13, frame = 1 \<rparr>"
        "example_CC True False 0 0" example_params
        "example_controller True" "example_CS (7 / 2) 20 0 0 0" 0]
  from t1 h have a: "\<bar>angle_modifier (snd (snd (update example_params (example_controller True) init
        (example_CC True False 0 0) (example_CS (7 / 2) 20 0 0 0) 0))) - angle_modifier init\<bar> \<le> 5"
    by blast
  from t2 h have b: "angle_modifier (snd (snd (update example_params (example_controller True) init
        (example_CC False False 0 0) (example_CS (7 / 2) 20 0 0 0) 0))) = 0"
    by blast
  from t3 h have c: "angle_modifier (snd (snd (update example_params (example_controller True)
        \<lparr> apply_angle_last = 0, angle_modifier = 5, driver_torque = 30 / 13, frame = 1 \<rparr>
        (example_CC True False 0 0) (example_CS (7 / 2) 20 0 0 0) 0))) =
      angle_modifier \<lparr> apply_angle_last = 0, angle_modifier = 5, driver_torque = 30 / 13, frame = 1 \<rparr>"
    by blast
  have c': "angle_modifier (snd (snd (update example_params (example_controller True)
        \<lparr> apply_angle_last = 0, angle_modifier = 5, driver_torque = 30 / 13, frame = 1 \<rparr>
        (example_CC True False 0 0) (example_CS (7 / 2) 20 0 0 0) 0))) = 5"
    unfolding c by simp
  show ?thesis
    by (intro conjI h v a b c')
qed

text \<open>
  C5 as stated fails. With a steady driver torque of 3.5 at speed 20 and lateral control
  requested, the modifier is 5 after the steering frame 0 and 10 after the steering frame
  2; lateral control is then no longer requested, and the steering frame 4 sets the
  modifier to 0: a change of 10 degrees between two consecutive steering-rate updates.
\<close>

theorem angle_modifier_reset_exceeds_step:
  "angle_modifier (run example_params (example_controller True) init
      [(example_CC True False 0 0, example_CS (7 / 2) 20 0 0 0, 0),
       (example_CC True False 0 0, example_CS (7 / 2) 20 0 0 0, 0),
       (example_CC True False 0 0, example_CS (7 / 2) 20 0 0 0, 0),
       (example_CC True False 0 0, example_CS (7 / 2) 20 0 0 0, 0)]) = 10
   \<and> frame (run example_params (example_controller True) init
      [(example_CC True False 0 0, example_CS (7 / 2) 20 0 0 0, 0),
       (example_CC True False 0 0, example_CS (7 / 2) 20 0 0 0, 0),
       (example_CC True False 0 0, example_CS (7 / 2) 20 0 0 0, 0),
       (example_CC True False 0 0, example_CS (7 / 2) 20 0 0 0, 0)]) = 4
   \<and> angle_modifier (run example_params (example_controller True) init
      [(example_CC True False 0 0, example_CS (7 / 2) 20 0 0 0, 0),
       (example_CC True False 0 0, example_CS (7 / 2) 20 0 0 0, 0),
       (example_CC True False 0 0, example_CS (7 / 2) 20 0 0 0, 0),
       (example_CC True False 0 0, example_CS (7 / 2) 20 0 0 0, 0),
       (example_CC False False 0 0, example_CS (7 / 2) 20 0 0 0, 0)]) = 0
   \<and> \<not> \<bar>angle_modifier (run example_params (example_controller True) init
      [(example_CC True False 0 0, example_CS (7 / 2) 20 0 0 0, 0),
       (example_CC True False 0 0, example_CS (7 / 2) 20 0 0 0, 0),
       (example_CC True False 0 0, example_CS (7 / 2) 20 0 0 0, 0),
       (example_CC True False 0 0, example_CS (7 / 2) 20 0 0 0, 0),
       (example_CC False False 0 0, example_CS (7 / 2) 20 0 0 0, 0)])
     - angle_modifier (run example_params (example_controller True) init
      [(example_CC True False 0 0, example_CS (7 / 2) 20 0 0 0, 0),
       (example_CC True False 0 0, example_CS (7 / 2) 20 0 0 0, 0),
       (example_CC True False 0 0, example_CS (7 / 2) 20 0 0 0, 0),
       (example_CC True False 0 0, example_CS (7 / 2) 20 0 0 0, 0)])\<bar> \<le> 5"
proof -
  let ?P = example_params and ?C = "example_controller True"
  let ?on = "example_CC True False 0 0" and ?off = "example_CC False False 0 0"
  let ?CS = "example_CS (7 / 2) 20 0 0 0"
  define s1 where "s1 = snd (snd (update ?P ?C init ?on ?CS 0))"
  define s2 where "s2 = snd (snd (update ?P ?C s1 ?on ?CS 0))"
  define s3 where "s3 = snd (snd (update ?P ?C s2 ?on ?CS 0))"
  define s4 where "s4 = snd (snd (update ?P ?C s3 ?on ?CS 0))"
  define s5 where "s5 = snd (snd (update ?P ?C s4 ?off ?CS 0))"
  have p1: "frame s1 = 1" "driver_torque s1 = 30 / 13" "angle_modifier s1 = 5"
    unfolding s1_def
    by (simp_all add: update_frame driver_torque_example update_angle_modifier
        next_angle_modifier_example init_def np_clip_def)
  have p2: "frame s2 = 2" "driver_torque s2 = 480 / 169" "angle_modifier s2 = 5"
    unfolding s2_def
    by (simp_all add: update_frame driver_torque_example update_angle_modifier p1)
  have p3: "frame s3 = 3" "driver_torque s3 = 6510 / 2197" "angle_modifier s3 = 10"
    unfolding s3_def
    by (simp_all add: update_frame driver_torque_example update_angle_modifier
        next_angle_modifier_example p2 np_clip_def)
  have p4: "frame s4 = 4" "angle_modifier s4 = 10"
    unfolding s4_def
    by (simp_all add: update_frame update_angle_modifier p3)
  have p5: "angle_modifier s5 = 0"
    unfolding s5_def
    by (simp add: update_angle_modifier p4 next_angle_modifier_def example_CC_sel)
  have r4: "run ?P ?C init [(?on, ?CS, 0), (?on, ?CS, 0), (?on, ?CS, 0), (?on, ?CS, 0)] = s4"
    by (simp add: s1_def s2_def s3_def s4_def)
  have r5: "run ?P ?C init
      [(?on, ?CS, 0), (?on, ?CS, 0), (?on, ?CS, 0), (?on, ?CS, 0), (?off, ?CS, 0)] = s5"
    by (simp add: s1_def s2_def s3_def s4_def s5_def)
  show ?thesis
    unfolding r4 r5 by (simp add: p4 p5)
qed

end
